theory Spec2Isabelle
  imports Main
begin

section \<open>Documents of the orders collection\<close>

text \<open>
  The controllers work on Mongoose documents. The fields below are the ones the
  controllers read and write (\<^verbatim>\<open>controllers/orders.js\<close>,
  \<^verbatim>\<open>controllers/payments.js\<close>, \<^verbatim>\<open>controllers/admin.js\<close>). Prices and
  quantities are JavaScript numbers; they are modelled as exact integers, and
  \<^verbatim>\<open>Date.now()\<close> as an integer handed to each handler.
\<close>

datatype jsvalue = JUndefined | JNumber int | JString string

record product =
  prod_name :: string
  prod_price :: int

record order_item =
  item_product :: string
  item_quantity :: int
  item_price :: int

record payment_result =
  pr_id :: "string option"
  pr_status :: "string option"
  pr_update_time :: jsvalue
  pr_email_address :: "string option"

record order =
  oid :: string
  user :: string
  items :: "order_item list"
  shippingAddress :: string
  paymentMethod :: string
  taxPrice :: int
  shippingPrice :: int
  totalPrice :: int
  isPaid :: bool
  paidAt :: "int option"
  paymentResult :: "payment_result option"
  isDelivered :: bool
  deliveredAt :: "int option"
  status :: string

text \<open>\<^verbatim>\<open>req.user\<close>, as the authentication middleware leaves it.\<close>

record req_user =
  ru_id :: string
  ru_email :: string
  ru_role :: string

text \<open>
  A handler ends in \<^verbatim>\<open>next(new ErrorResponse(message, statusCode))\<close>, in an
  exception that \<^verbatim>\<open>asyncHandler\<close> hands to \<^verbatim>\<open>next\<close>, or in a JSON
  response.
\<close>

datatype error = ErrorResponse string nat | Thrown string

section \<open>The collection\<close>

text \<open>
  The collection is the list of its documents in natural order. A query that
  asks for one document takes the first that matches.
\<close>

type_synonym store = "order list"

definition findById :: "store \<Rightarrow> string \<Rightarrow> order option" where
  "findById st i = find (\<lambda>d. oid d = i) st"

fun updateFirst :: "(order \<Rightarrow> bool) \<Rightarrow> (order \<Rightarrow> order) \<Rightarrow> store \<Rightarrow> store" where
  "updateFirst q u [] = []"
| "updateFirst q u (d # ds) = (if q d then u d # ds else d # updateFirst q u ds)"

text \<open>
  \<^verbatim>\<open>Order.findOneAndUpdate(filter, update)\<close> and
  \<^verbatim>\<open>Order.findByIdAndUpdate(id, update)\<close>.
\<close>

definition findOneAndUpdate :: "(order \<Rightarrow> bool) \<Rightarrow> (order \<Rightarrow> order) \<Rightarrow> store \<Rightarrow> store" where
  "findOneAndUpdate q u st = updateFirst q u st"

definition findByIdAndUpdate :: "string \<Rightarrow> (order \<Rightarrow> order) \<Rightarrow> store \<Rightarrow> store" where
  "findByIdAndUpdate i u st = updateFirst (\<lambda>x. oid x = i) u st"

text \<open>
  \<^verbatim>\<open>order.save()\<close> on a document that was loaded from the collection:
  the stored document with the same \<^verbatim>\<open>_id\<close> is replaced by the one in memory.
\<close>

definition save :: "order \<Rightarrow> store \<Rightarrow> store" where
  "save d st = updateFirst (\<lambda>x. oid x = oid d) (\<lambda>_. d) st"

section \<open>controllers/orders.js\<close>

subsection \<open>createOrder\<close>

record req_item =
  ri_product :: string
  ri_quantity :: int

record create_body =
  cb_items :: "req_item list option"
  cb_shippingAddress :: string
  cb_paymentMethod :: string
  cb_taxPrice :: int
  cb_shippingPrice :: int

text \<open>
  The orders controller requires \<^verbatim>\<open>Order\<close>, \<^verbatim>\<open>ErrorResponse\<close> and
  \<^verbatim>\<open>asyncHandler\<close> only. The name \<^verbatim>\<open>Product\<close> in the first
  statement of the loop over \<^verbatim>\<open>items\<close> is unbound there, so the first
  iteration throws a ReferenceError, which \<^verbatim>\<open>asyncHandler\<close> hands to
  \<^verbatim>\<open>next\<close>. The lines after it (the price of each item copied into the
  order, \<^verbatim>\<open>totalPrice = itemsPrice + taxPrice + shippingPrice\<close>, the
  \<^verbatim>\<open>save\<close>) are not reached, and the handler stores nothing. An absent
  \<^verbatim>\<open>items\<close> passes the emptiness test and fails at the loop, being not
  iterable.
\<close>

definition createOrder :: "store \<Rightarrow> req_user \<Rightarrow> create_body \<Rightarrow> store \<times> (error + order)" where
  "createOrder st u body =
     (case cb_items body of
        None \<Rightarrow> (st, Inl (Thrown ''TypeError''))
      | Some its \<Rightarrow>
          if length its = 0 then (st, Inl (ErrorResponse ''No order items'' 400))
          else (st, Inl (Thrown ''ReferenceError'')))"

subsection \<open>updateOrderToPaid\<close>

record pay_body =
  pb_id :: "string option"
  pb_status :: "string option"
  pb_update_time :: jsvalue
  pb_payer :: "string option option"

definition updateOrderToPaid ::
  "int \<Rightarrow> store \<Rightarrow> req_user \<Rightarrow> string \<Rightarrow> pay_body \<Rightarrow> store \<times> (error + order)" where
  "updateOrderToPaid now st u i body =
     (case findById st i of
        None \<Rightarrow> (st, Inl (ErrorResponse (''Order not found with id of '' @ i) 404))
      | Some d \<Rightarrow>
          if user d \<noteq> ru_id u \<and> ru_role u \<noteq> ''admin''
          then (st, Inl (ErrorResponse
                  (''User '' @ ru_id u @ '' is not authorized to update this order'') 401))
          else
            (case pb_payer body of
               None \<Rightarrow> (st, Inl (Thrown ''TypeError''))
             | Some email \<Rightarrow>
                 let d' = d\<lparr>isPaid := True,
                             paidAt := Some now,
                             paymentResult := Some \<lparr>pr_id = pb_id body,
                                                    pr_status = pb_status body,
                                                    pr_update_time = pb_update_time body,
                                                    pr_email_address = email\<rparr>\<rparr>
                 in (save d' st, Inr d')))"

subsection \<open>updateOrderToDelivered\<close>

text \<open>
  \<^verbatim>\<open>save()\<close> validates the document against the schema. The schema is not
  part of the sources; its validator for \<^verbatim>\<open>status\<close> is the parameter
  \<^verbatim>\<open>validStatus\<close>. A failed validation is an exception and nothing is
  written. The documents already in the collection are taken to satisfy the schema,
  so a validator matters only for the value that a handler writes.
\<close>

definition updateOrderToDelivered ::
  "(string \<Rightarrow> bool) \<Rightarrow> int \<Rightarrow> store \<Rightarrow> string \<Rightarrow> store \<times> (error + order)" where
  "updateOrderToDelivered validStatus now st i =
     (case findById st i of
        None \<Rightarrow> (st, Inl (ErrorResponse (''Order not found with id of '' @ i) 404))
      | Some d \<Rightarrow>
          let d' = d\<lparr>isDelivered := True, deliveredAt := Some now, status := ''delivered''\<rparr>
          in if validStatus (status d') then (save d' st, Inr d')
             else (st, Inl (Thrown ''ValidationError'')))"

subsection \<open>updateOrder\<close>

text \<open>
  \<^verbatim>\<open>req.body\<close> of \<^verbatim>\<open>PUT /orders/:id\<close>: any subset of the document's
  fields. \<^verbatim>\<open>findByIdAndUpdate\<close> sets the fields that are present.
\<close>

record order_body =
  ob_user :: "string option"
  ob_items :: "order_item list option"
  ob_shippingAddress :: "string option"
  ob_paymentMethod :: "string option"
  ob_taxPrice :: "int option"
  ob_shippingPrice :: "int option"
  ob_totalPrice :: "int option"
  ob_isPaid :: "bool option"
  ob_paidAt :: "int option"
  ob_paymentResult :: "payment_result option"
  ob_isDelivered :: "bool option"
  ob_deliveredAt :: "int option"
  ob_status :: "string option"

definition orElse :: "'a option \<Rightarrow> 'a \<Rightarrow> 'a" where
  "orElse v old = (case v of None \<Rightarrow> old | Some x \<Rightarrow> x)"

definition setFields :: "order_body \<Rightarrow> order \<Rightarrow> order" where
  "setFields b d =
     d\<lparr>user := orElse (ob_user b) (user d),
       items := orElse (ob_items b) (items d),
       shippingAddress := orElse (ob_shippingAddress b) (shippingAddress d),
       paymentMethod := orElse (ob_paymentMethod b) (paymentMethod d),
       taxPrice := orElse (ob_taxPrice b) (taxPrice d),
       shippingPrice := orElse (ob_shippingPrice b) (shippingPrice d),
       totalPrice := orElse (ob_totalPrice b) (totalPrice d),
       isPaid := orElse (ob_isPaid b) (isPaid d),
       paidAt := (case ob_paidAt b of None \<Rightarrow> paidAt d | Some t \<Rightarrow> Some t),
       paymentResult :=
         (case ob_paymentResult b of None \<Rightarrow> paymentResult d | Some r \<Rightarrow> Some r),
       isDelivered := orElse (ob_isDelivered b) (isDelivered d),
       deliveredAt := (case ob_deliveredAt b of None \<Rightarrow> deliveredAt d | Some t \<Rightarrow> Some t),
       status := orElse (ob_status b) (status d)\<rparr>"

text \<open>
  \<^verbatim>\<open>runValidators\<close> is the schema's validation of the update, a parameter
  for the same reason as \<^verbatim>\<open>validStatus\<close>.
\<close>

definition updateOrder ::
  "(order_body \<Rightarrow> bool) \<Rightarrow> store \<Rightarrow> req_user \<Rightarrow> string \<Rightarrow> order_body
    \<Rightarrow> store \<times> (error + order option)" where
  "updateOrder runValidators st u i body =
     (case findById st i of
        None \<Rightarrow> (st, Inl (ErrorResponse (''Order not found with id of '' @ i) 404))
      | Some d \<Rightarrow>
          if user d \<noteq> ru_id u \<and> ru_role u \<noteq> ''admin''
          then (st, Inl (ErrorResponse
                  (''User '' @ ru_id u @ '' is not authorized to update this order'') 401))
          else if \<not> runValidators body then (st, Inl (Thrown ''ValidationError''))
          else
            let st' = findByIdAndUpdate i (setFields body) st
            in (st', Inr (findById st' i)))"

section \<open>controllers/admin.js\<close>

definition updateOrderStatus ::
  "(string \<Rightarrow> bool) \<Rightarrow> int \<Rightarrow> store \<Rightarrow> string \<Rightarrow> string \<Rightarrow> store \<times> (error + order)" where
  "updateOrderStatus validStatus now st i s =
     (case findById st i of
        None \<Rightarrow> (st, Inl (ErrorResponse (''Order not found with id of '' @ i) 404))
      | Some d \<Rightarrow>
          let d1 = d\<lparr>status := s\<rparr>;
              d' = (if s = ''delivered''
                    then d1\<lparr>isDelivered := True, deliveredAt := Some now\<rparr> else d1)
          in if validStatus (status d') then (save d' st, Inr d')
             else (st, Inl (Thrown ''ValidationError'')))"

section \<open>controllers/payments.js\<close>

text \<open>
  The gateway's objects. \<^verbatim>\<open>stripe.paymentIntents.create\<close>,
  \<^verbatim>\<open>stripe.paymentIntents.retrieve\<close> and
  \<^verbatim>\<open>stripe.webhooks.constructEvent\<close> are parameters of the handlers: each
  returns its value or throws.
\<close>

record payment_intent =
  pi_id :: string
  pi_status :: string
  pi_created :: int
  pi_amount :: int
  pi_client_secret :: string

record intent_params =
  ip_amount :: int
  ip_currency :: string
  ip_metadata :: "(string \<times> string) list"

record event =
  ev_type :: string
  ev_object :: payment_intent

subsection \<open>createPaymentIntent\<close>

text \<open>
  The \<^verbatim>\<open>reduce\<close> over the populated items: \<^verbatim>\<open>item.product\<close> is the
  catalog's product of that id as it is now, or \<^verbatim>\<open>null\<close>, on which reading
  \<^verbatim>\<open>price\<close> throws.
\<close>

fun totalAmount :: "(string \<Rightarrow> product option) \<Rightarrow> order_item list \<Rightarrow> int \<Rightarrow> error + int" where
  "totalAmount Product [] tot = Inr tot"
| "totalAmount Product (item # rest) tot =
     (case Product (item_product item) of
        None \<Rightarrow> Inl (Thrown ''TypeError'')
      | Some p \<Rightarrow> totalAmount Product rest (tot + prod_price p * item_quantity item))"

text \<open>
  The result holds the parameters handed to \<^verbatim>\<open>stripe.paymentIntents.create\<close>
  beside the \<^verbatim>\<open>clientSecret\<close> of the response. The arithmetic is exact: it
  is that of the source where prices and quantities are integers and no product or
  sum leaves the range in which a JavaScript number is exact; the rounding of
  fractional prices is not modelled.
\<close>

definition createPaymentIntent ::
  "(string \<Rightarrow> product option) \<Rightarrow> (intent_params \<Rightarrow> error + payment_intent) \<Rightarrow> store
    \<Rightarrow> req_user \<Rightarrow> string \<Rightarrow> error + (intent_params \<times> string)" where
  "createPaymentIntent Product create st u orderId =
     (case findById st orderId of
        None \<Rightarrow> Inl (ErrorResponse (''Order not found with id of '' @ orderId) 404)
      | Some d \<Rightarrow>
          if user d \<noteq> ru_id u
          then Inl (ErrorResponse ''Not authorized to pay for this order'' 401)
          else if isPaid d then Inl (ErrorResponse ''Order already paid'' 400)
          else
            (case totalAmount Product (items d) 0 of
               Inl e \<Rightarrow> Inl e
             | Inr tot \<Rightarrow>
                 let params = \<lparr>ip_amount = tot * 100,
                               ip_currency = ''usd'',
                               ip_metadata = [(''integration_check'', ''accept_a_payment'')]\<rparr>
                 in (case create params of
                       Inl e \<Rightarrow> Inl e
                     | Inr paymentIntent \<Rightarrow> Inr (params, pi_client_secret paymentIntent))))"

subsection \<open>confirmPayment\<close>

text \<open>
  The handler up to its \<^verbatim>\<open>order.save()\<close>: the document in memory after the
  assignments, or the error the handler ends in.
\<close>

definition confirmPayment_prepare ::
  "(string \<Rightarrow> error + payment_intent) \<Rightarrow> int \<Rightarrow> store \<Rightarrow> req_user \<Rightarrow> string \<Rightarrow> string
    \<Rightarrow> error + order" where
  "confirmPayment_prepare retrieve now st u orderId paymentId =
     (case findById st orderId of
        None \<Rightarrow> Inl (ErrorResponse (''Order not found with id of '' @ orderId) 404)
      | Some d \<Rightarrow>
          if user d \<noteq> ru_id u
          then Inl (ErrorResponse ''Not authorized to update this order'' 401)
          else
            (case retrieve paymentId of
               Inl e \<Rightarrow> Inl e
             | Inr paymentIntent \<Rightarrow>
                 if pi_status paymentIntent \<noteq> ''succeeded''
                 then Inl (ErrorResponse ''Payment not successful'' 400)
                 else Inr (d\<lparr>isPaid := True,
                             paidAt := Some now,
                             paymentResult :=
                               Some \<lparr>pr_id = Some (pi_id paymentIntent),
                                     pr_status = Some (pi_status paymentIntent),
                                     pr_update_time = JNumber (pi_created paymentIntent),
                                     pr_email_address = Some (ru_email u)\<rparr>\<rparr>)))"

definition confirmPayment ::
  "(string \<Rightarrow> error + payment_intent) \<Rightarrow> int \<Rightarrow> store \<Rightarrow> req_user \<Rightarrow> string \<Rightarrow> string
    \<Rightarrow> store \<times> (error + order)" where
  "confirmPayment retrieve now st u orderId paymentId =
     (case confirmPayment_prepare retrieve now st u orderId paymentId of
        Inl e \<Rightarrow> (st, Inl e)
      | Inr d' \<Rightarrow> (save d' st, Inr d'))"

subsection \<open>webhook\<close>

datatype webhook_response = Send nat string | Received

text \<open>The filter \<^verbatim>\<open>{ 'paymentResult.id': paymentIntent.id }\<close>.\<close>

definition paymentResultIdIs :: "string \<Rightarrow> order \<Rightarrow> bool" where
  "paymentResultIdIs pid d =
     (case paymentResult d of None \<Rightarrow> False | Some r \<Rightarrow> pr_id r = Some pid)"

text \<open>
  The update \<^verbatim>\<open>{ isPaid: true, paidAt: Date.now(), 'paymentResult.status': paymentIntent.status }\<close>.
\<close>

definition webhookUpdate :: "int \<Rightarrow> payment_intent \<Rightarrow> order \<Rightarrow> order" where
  "webhookUpdate now paymentIntent d =
     d\<lparr>isPaid := True,
       paidAt := Some now,
       paymentResult :=
         map_option (\<lambda>r. r\<lparr>pr_status := Some (pi_status paymentIntent)\<rparr>) (paymentResult d)\<rparr>"

text \<open>
  \<^verbatim>\<open>sig\<close> is the \<^verbatim>\<open>stripe-signature\<close> header, if the request has one.
  The two \<^verbatim>\<open>console.log\<close> lines write nothing that the handlers read.
\<close>

definition webhook ::
  "(string \<Rightarrow> string option \<Rightarrow> string \<Rightarrow> string + event) \<Rightarrow> string \<Rightarrow> int \<Rightarrow> store
    \<Rightarrow> string \<Rightarrow> string option \<Rightarrow> store \<times> webhook_response" where
  "webhook constructEvent secret now st body sig =
     (case constructEvent body sig secret of
        Inl message \<Rightarrow> (st, Send 400 (''Webhook Error: '' @ message))
      | Inr ev \<Rightarrow>
          if ev_type ev = ''payment_intent.succeeded''
          then (findOneAndUpdate (paymentResultIdIs (pi_id (ev_object ev)))
                  (webhookUpdate now (ev_object ev)) st, Received)
          else if ev_type ev = ''payment_intent.payment_failed'' then (st, Received)
          else (st, Received))"

section \<open>A confirmation and a webhook delivery that overlap\<close>




section \<open>The transition table of the specification\<close>

text \<open>
  Modelled from the spec: the table of section 4.4 (Created to AwaitingPayment,
  AwaitingPayment to Paid, Paid to Processing, Processing to Delivered, Created or
  AwaitingPayment to Cancelled), its state names in lower case, as the code writes
  its status strings.
\<close>

definition spec_transition :: "string \<Rightarrow> string \<Rightarrow> bool" where
  "spec_transition a b =
     ((a = ''created'' \<and> b = ''awaitingpayment'')
      \<or> (a = ''awaitingpayment'' \<and> b = ''paid'')
      \<or> (a = ''paid'' \<and> b = ''processing'')
      \<or> (a = ''processing'' \<and> b = ''delivered'')
      \<or> (a = ''created'' \<and> b = ''cancelled'')
      \<or> (a = ''awaitingpayment'' \<and> b = ''cancelled''))"

section \<open>Example data\<close>

text \<open>
  Concrete documents, users and gateway answers on which the theorems below are
  instantiated. \<^verbatim>\<open>statusEnum\<close> stands in for the schema's validator of
  \<^verbatim>\<open>status\<close>: it accepts the status strings that the controllers
  themselves write or query.
\<close>

definition alice :: req_user where
  "alice = \<lparr>ru_id = ''u1'', ru_email = ''alice@example.com'', ru_role = ''user''\<rparr>"

definition order1 :: order where
  "order1 = \<lparr>oid = ''o1'', user = ''u1'',
     items = [\<lparr>item_product = ''p1'', item_quantity = 2, item_price = 10\<rparr>],
     shippingAddress = ''1 Main St'', paymentMethod = ''card'',
     taxPrice = 1, shippingPrice = 2, totalPrice = 23,
     isPaid = False, paidAt = None, paymentResult = None,
     isDelivered = False, deliveredAt = None, status = ''pending''\<rparr>"

definition intent1 :: payment_intent where
  "intent1 = \<lparr>pi_id = ''pi_1'', pi_status = ''succeeded'', pi_created = 500,
     pi_amount = 2300, pi_client_secret = ''cs_1''\<rparr>"

definition intent2 :: payment_intent where
  "intent2 = \<lparr>pi_id = ''pi_2'', pi_status = ''succeeded'', pi_created = 600,
     pi_amount = 2300, pi_client_secret = ''cs_2''\<rparr>"

definition stripeRetrieve :: "string \<Rightarrow> error + payment_intent" where
  "stripeRetrieve p =
     (if p = ''pi_1'' then Inr intent1
      else if p = ''pi_2'' then Inr intent2
      else Inl (Thrown ''StripeInvalidRequestError''))"

definition verifying :: "event \<Rightarrow> string \<Rightarrow> string option \<Rightarrow> string \<Rightarrow> string + event" where
  "verifying ev body sig secret =
     (if sig = Some ''valid'' then Inr ev
      else Inl ''No signatures found matching the expected signature for payload'')"

definition statusEnum :: "string \<Rightarrow> bool" where
  "statusEnum s = (s = ''pending'' \<or> s = ''processing'' \<or> s = ''delivered'')"

definition paid1 :: order where
  "paid1 = order1\<lparr>isPaid := True, paidAt := Some 1000,
     paymentResult := Some \<lparr>pr_id = Some ''pi_1'', pr_status = Some ''succeeded'',
       pr_update_time = JNumber 500, pr_email_address = Some ''alice@example.com''\<rparr>\<rparr>"

definition order2 :: order where
  "order2 = \<lparr>oid = ''o2'', user = ''u2'',
     items = [\<lparr>item_product = ''p2'', item_quantity = 1, item_price = 40\<rparr>],
     shippingAddress = ''2 Side St'', paymentMethod = ''card'',
     taxPrice = 0, shippingPrice = 0, totalPrice = 40,
     isPaid = False, paidAt = None, paymentResult = None,
     isDelivered = False, deliveredAt = None, status = ''pending''\<rparr>"

definition succeeded1 :: event where
  "succeeded1 = \<lparr>ev_type = ''payment_intent.succeeded'', ev_object = intent1\<rparr>"

definition succeeded2 :: event where
  "succeeded2 = \<lparr>ev_type = ''payment_intent.succeeded'', ev_object = intent2\<rparr>"

definition delivered1 :: order where
  "delivered1 = paid1\<lparr>isDelivered := True, deliveredAt := Some 3000, status := ''delivered''\<rparr>"

definition claimed1 :: order where
  "claimed1 = order1\<lparr>paymentResult := Some \<lparr>pr_id = Some ''pi_1'', pr_status = None,
     pr_update_time = JUndefined, pr_email_address = None\<rparr>\<rparr>"

definition tampered1 :: event where
  "tampered1 = \<lparr>ev_type = ''payment_intent.succeeded'', ev_object = intent1\<lparr>pi_amount := 1\<rparr>\<rparr>"

definition payBody2 :: pay_body where
  "payBody2 = \<lparr>pb_id = Some ''PAYID-2'', pb_status = Some ''COMPLETED'',
     pb_update_time = JString ''2024-01-01T00:00:00Z'',
     pb_payer = Some (Some ''alice@example.com'')\<rparr>"

definition bodyValidators :: "order_body \<Rightarrow> bool" where
  "bodyValidators b = (case ob_status b of None \<Rightarrow> True | Some s \<Rightarrow> statusEnum s)"

definition forgedBody :: order_body where
  "forgedBody = \<lparr>ob_user = None, ob_items = None, ob_shippingAddress = None,
     ob_paymentMethod = None, ob_taxPrice = None, ob_shippingPrice = None,
     ob_totalPrice = Some 1, ob_isPaid = Some True, ob_paidAt = None,
     ob_paymentResult = Some \<lparr>pr_id = Some ''pi_9'', pr_status = Some ''succeeded'',
       pr_update_time = JUndefined, pr_email_address = None\<rparr>,
     ob_isDelivered = None, ob_deliveredAt = None, ob_status = Some ''delivered''\<rparr>"

definition onlyPaidBody :: order_body where
  "onlyPaidBody = \<lparr>ob_user = None, ob_items = None, ob_shippingAddress = None,
     ob_paymentMethod = None, ob_taxPrice = None, ob_shippingPrice = None,
     ob_totalPrice = None, ob_isPaid = Some True, ob_paidAt = None,
     ob_paymentResult = None,
     ob_isDelivered = None, ob_deliveredAt = None, ob_status = None\<rparr>"

definition takeoverBody :: order_body where
  "takeoverBody = \<lparr>ob_user = Some ''u2'',
     ob_items = Some [\<lparr>item_product = ''p1'', item_quantity = 50, item_price = 0\<rparr>],
     ob_shippingAddress = None,
     ob_paymentMethod = None, ob_taxPrice = None, ob_shippingPrice = None,
     ob_totalPrice = None, ob_isPaid = None, ob_paidAt = None,
     ob_paymentResult = None,
     ob_isDelivered = None, ob_deliveredAt = None, ob_status = None\<rparr>"

definition claimBody :: order_body where
  "claimBody = \<lparr>ob_user = None, ob_items = None, ob_shippingAddress = None,
     ob_paymentMethod = None, ob_taxPrice = None, ob_shippingPrice = None,
     ob_totalPrice = None, ob_isPaid = None, ob_paidAt = None,
     ob_paymentResult = Some \<lparr>pr_id = Some ''pi_1'', pr_status = None,
       pr_update_time = JUndefined, pr_email_address = None\<rparr>,
     ob_isDelivered = None, ob_deliveredAt = None, ob_status = None\<rparr>"

definition catalog1 :: "string \<Rightarrow> product option" where
  "catalog1 i = (if i = ''p1'' then Some \<lparr>prod_name = ''Lamp'', prod_price = 10\<rparr> else None)"

definition catalog2 :: "string \<Rightarrow> product option" where
  "catalog2 i = (if i = ''p1'' then Some \<lparr>prod_name = ''Lamp'', prod_price = 15\<rparr> else None)"

definition stripeCreate :: "intent_params \<Rightarrow> error + payment_intent" where
  "stripeCreate params =
     Inr \<lparr>pi_id = ''pi_1'', pi_status = ''requires_payment_method'', pi_created = 500,
          pi_amount = ip_amount params, pi_client_secret = ''cs_1''\<rparr>"

section \<open>Facts about the collection\<close>

lemma findById_oid: "findById st i = Some d \<Longrightarrow> oid d = i"
  by (auto simp: findById_def find_Some_iff)

lemma updateFirst_no_match: "\<forall>d\<in>set st. \<not> q d \<Longrightarrow> updateFirst q u st = st"
  by (induction st) auto

lemma length_updateFirst: "length (updateFirst q u st) = length st"
  by (induction st) auto

lemma updateFirst_nth_unmatched:
  "k < length st \<Longrightarrow> \<not> q (st ! k) \<Longrightarrow> updateFirst q u st ! k = st ! k"
proof (induction st arbitrary: k)
  case Nil
  then show ?case by simp
next
  case (Cons d ds)
  then show ?case by (cases k) auto
qed

lemma updateFirst_split:
  "\<forall>x\<in>set pre. \<not> q x \<Longrightarrow> q d \<Longrightarrow> updateFirst q u (pre @ d # post) = pre @ u d # post"
  by (induction pre) auto

lemma updateFirst_map_field:
  "(\<And>d. f (u d) = f d) \<Longrightarrow> map f (updateFirst q u st) = map f st"
  by (induction st) auto

lemma findById_updateFirst:
  "findById st i = Some d \<Longrightarrow> oid (u d) = i
    \<Longrightarrow> findById (updateFirst (\<lambda>x. oid x = i) u st) i = Some (u d)"
  by (induction st) (auto simp: findById_def split: if_splits)

lemma findById_save:
  "findById st (oid d') = Some d \<Longrightarrow> findById (save d' st) (oid d') = Some d'"
  unfolding save_def by (rule findById_updateFirst) auto

lemma findById_save_id:
  "findById st i = Some d \<Longrightarrow> oid d' = i \<Longrightarrow> findById (save d' st) i = Some d'"
  using findById_save [of st d' d] by simp

lemma save_save: "oid a = oid b \<Longrightarrow> save b (save a st) = save b st"
  unfolding save_def by (induction st) auto

lemma save_same: "findById st (oid d) = Some d \<Longrightarrow> save d st = st"
  unfolding save_def findById_def by (induction st) (auto split: if_splits)


lemma findById_split:
  "findById st i = Some d \<Longrightarrow> \<exists>pre post. st = pre @ d # post \<and> (\<forall>x\<in>set pre. oid x \<noteq> i)"
proof (induction st)
  case Nil
  then show ?case by (simp add: findById_def)
next
  case (Cons x xs)
  show ?case
  proof (cases "oid x = i")
    case True
    with Cons.prems have "x = d" by (simp add: findById_def)
    then have "x # xs = [] @ d # xs \<and> (\<forall>y\<in>set []. oid y \<noteq> i)" by simp
    then show ?thesis by blast
  next
    case False
    with Cons.prems have "findById xs i = Some d" by (simp add: findById_def)
    with Cons.IH obtain pre post where "xs = pre @ d # post" "\<forall>y\<in>set pre. oid y \<noteq> i"
      by blast
    with False have "x # xs = (x # pre) @ d # post \<and> (\<forall>y\<in>set (x # pre). oid y \<noteq> i)"
      by simp
    then show ?thesis by blast
  qed
qed

lemma findById_after_two_updates:
  "findById st i = Some d \<Longrightarrow> oid (f d) = i \<Longrightarrow> q (f d) \<Longrightarrow> \<forall>x\<in>set st. \<not> q x
    \<Longrightarrow> oid (u (f d)) = i
    \<Longrightarrow> findById (updateFirst q u (updateFirst (\<lambda>x. oid x = i) f st)) i = Some (u (f d))"
  by (induction st) (auto simp: findById_def split: if_splits)

section \<open>Facts about the handlers\<close>

lemma confirmPayment_prepare_oid:
  "confirmPayment_prepare retrieve now st u i p = Inr d' \<Longrightarrow> oid d' = i"
  by (auto simp: confirmPayment_prepare_def split: option.splits if_splits sum.splits
      dest: findById_oid)

lemma confirmPayment_prepare_found:
  "confirmPayment_prepare retrieve now st u i p = Inr d' \<Longrightarrow> \<exists>d. findById st i = Some d"
  by (auto simp: confirmPayment_prepare_def split: option.splits)

lemma confirmPayment_prepare_again:
  assumes "confirmPayment_prepare retrieve t1 st u i p = Inr d1"
  shows "confirmPayment_prepare retrieve t2 (save d1 st) u i p = Inr (d1\<lparr>paidAt := Some t2\<rparr>)"
proof -
  from assms obtain d where d: "findById st i = Some d"
    using confirmPayment_prepare_found by blast
  have o: "oid d1 = i" using assms by (rule confirmPayment_prepare_oid)
  have f: "findById (save d1 st) i = Some d1"
    using d o by (rule findById_save_id)
  show ?thesis
    using assms d f
    by (auto simp: confirmPayment_prepare_def split: if_splits sum.splits)
qed

lemma webhookUpdate_amount:
  "webhookUpdate now (paymentIntent\<lparr>pi_amount := a\<rparr>) = webhookUpdate now paymentIntent"
  by (rule ext) (simp add: webhookUpdate_def)

lemma setFields_explicit:
  "setFields body d =
     \<lparr>oid = oid d,
      user = (case ob_user body of None \<Rightarrow> user d | Some v \<Rightarrow> v),
      items = (case ob_items body of None \<Rightarrow> items d | Some v \<Rightarrow> v),
      shippingAddress = (case ob_shippingAddress body of None \<Rightarrow> shippingAddress d | Some v \<Rightarrow> v),
      paymentMethod = (case ob_paymentMethod body of None \<Rightarrow> paymentMethod d | Some v \<Rightarrow> v),
      taxPrice = (case ob_taxPrice body of None \<Rightarrow> taxPrice d | Some v \<Rightarrow> v),
      shippingPrice = (case ob_shippingPrice body of None \<Rightarrow> shippingPrice d | Some v \<Rightarrow> v),
      totalPrice = (case ob_totalPrice body of None \<Rightarrow> totalPrice d | Some v \<Rightarrow> v),
      isPaid = (case ob_isPaid body of None \<Rightarrow> isPaid d | Some v \<Rightarrow> v),
      paidAt = (case ob_paidAt body of None \<Rightarrow> paidAt d | Some v \<Rightarrow> Some v),
      paymentResult = (case ob_paymentResult body of None \<Rightarrow> paymentResult d | Some v \<Rightarrow> Some v),
      isDelivered = (case ob_isDelivered body of None \<Rightarrow> isDelivered d | Some v \<Rightarrow> v),
      deliveredAt = (case ob_deliveredAt body of None \<Rightarrow> deliveredAt d | Some v \<Rightarrow> Some v),
      status = (case ob_status body of None \<Rightarrow> status d | Some v \<Rightarrow> v)\<rparr>"
  by (simp add: setFields_def orElse_def)

lemma paymentResultIdIs_iff:
  "paymentResultIdIs pid d \<longleftrightarrow> map_option pr_id (paymentResult d) = Some (Some pid)"
  by (auto simp: paymentResultIdIs_def split: option.splits)

lemma webhook_succeeded:
  "constructEvent body sig secret = Inr ev \<Longrightarrow> ev_type ev = ''payment_intent.succeeded''
    \<Longrightarrow> st = pre @ d # post
    \<Longrightarrow> \<forall>x\<in>set pre. map_option pr_id (paymentResult x) \<noteq> Some (Some (pi_id (ev_object ev)))
    \<Longrightarrow> paymentResult d = Some r \<Longrightarrow> pr_id r = Some (pi_id (ev_object ev))
    \<Longrightarrow> webhook constructEvent secret now st body sig
        = (pre @ d\<lparr>isPaid := True, paidAt := Some now,
                    paymentResult := Some (r\<lparr>pr_status := Some (pi_status (ev_object ev))\<rparr>)\<rparr>
             # post, Received)"
  by (simp add: webhook_def findOneAndUpdate_def updateFirst_split paymentResultIdIs_iff
      webhookUpdate_def)

lemma webhook_no_match:
  "constructEvent body sig secret = Inr ev
    \<Longrightarrow> \<forall>x\<in>set st. map_option pr_id (paymentResult x) \<noteq> Some (Some (pi_id (ev_object ev)))
    \<Longrightarrow> webhook constructEvent secret now st body sig = (st, Received)"
  by (simp add: webhook_def findOneAndUpdate_def updateFirst_no_match paymentResultIdIs_iff)

lemma webhook_other_event:
  "constructEvent body sig secret = Inr ev \<Longrightarrow> ev_type ev \<noteq> ''payment_intent.succeeded''
    \<Longrightarrow> webhook constructEvent secret now st body sig = (st, Received)"
  by (simp add: webhook_def)

section \<open>The claims\<close>

text \<open>
  C1. The claim: the amount handed to the gateway is the order's total as frozen at
  creation, and a later change of a catalog price does not change it. The code
  computes the amount from the catalog's prices at the time of the call and leaves
  out tax and shipping; it reads neither \<^verbatim>\<open>totalPrice\<close> nor the price
  stored with each item. For a stored order with total 23 (two items at the stored
  price 10, tax 1, shipping 2), the amount is 2000 and not 2300 while the catalog
  price is 10, and 3000 after the catalog price has changed to 15.
\<close>

theorem createPaymentIntent_amount_is_not_the_total:
  "totalPrice order1 = 23
   \<and> map item_price (items order1) = [10]
   \<and> map item_quantity (items order1) = [2]
   \<and> taxPrice order1 = 1 \<and> shippingPrice order1 = 2
   \<and> createPaymentIntent catalog1 stripeCreate [order1] alice ''o1''
        = Inr (\<lparr>ip_amount = 2000, ip_currency = ''usd'',
                 ip_metadata = [(''integration_check'', ''accept_a_payment'')]\<rparr>, ''cs_1'')
   \<and> createPaymentIntent catalog2 stripeCreate [order1] alice ''o1''
        = Inr (\<lparr>ip_amount = 3000, ip_currency = ''usd'',
                 ip_metadata = [(''integration_check'', ''accept_a_payment'')]\<rparr>, ''cs_1'')"
  by (simp add: createPaymentIntent_def findById_def catalog1_def catalog2_def
      stripeCreate_def order1_def alice_def Let_def)

text \<open>
  C2. The claim: confirming the same (order, intent) twice leaves the order as the
  first call left it, with no new \<^verbatim>\<open>paidAt\<close>. The code fails it: the second
  call writes the time of the second call.
\<close>

theorem second_confirmation_changes_paidAt:
  "fst (confirmPayment stripeRetrieve 1000 [order1] alice ''o1'' ''pi_1'') = [paid1]
   \<and> map paidAt [paid1] = [Some 1000]
   \<and> map paidAt (fst (confirmPayment stripeRetrieve 2000 [paid1] alice ''o1'' ''pi_1''))
        = [Some 2000]
   \<and> fst (confirmPayment stripeRetrieve 2000 [paid1] alice ''o1'' ''pi_1'') \<noteq> [paid1]"
  by (simp add: confirmPayment_def confirmPayment_prepare_def findById_def save_def
      stripeRetrieve_def order1_def alice_def intent1_def paid1_def)

text \<open>
  C2, as amended. After a successful confirmation, a second confirmation of the same
  order and intent by the same user, with the same answer of the gateway, succeeds
  and leaves the stored order as the first call left it except for
  \<^verbatim>\<open>paidAt\<close>, which becomes the time of the second call. The two states are
  the same when the clock reads the same.
\<close>

theorem confirmPayment_twice:
  assumes "confirmPayment retrieve t1 st u i p = (st1, Inr d1)"
  shows "confirmPayment retrieve t2 st1 u i p
           = (save (d1\<lparr>paidAt := Some t2\<rparr>) st1, Inr (d1\<lparr>paidAt := Some t2\<rparr>))
       \<and> findById st1 i = Some d1 \<and> paidAt d1 = Some t1
       \<and> findById (fst (confirmPayment retrieve t2 st1 u i p)) i
           = Some (d1\<lparr>paidAt := Some t2\<rparr>)
       \<and> confirmPayment retrieve t1 st1 u i p = (st1, Inr d1)"
proof -
  from assms have p: "confirmPayment_prepare retrieve t1 st u i p = Inr d1"
    and s: "st1 = save d1 st"
    by (auto simp: confirmPayment_def split: sum.splits)
  from p obtain d where d: "findById st i = Some d"
    using confirmPayment_prepare_found by blast
  have o: "oid d1 = i" using p by (rule confirmPayment_prepare_oid)
  have f: "findById st1 i = Some d1"
    unfolding s using d o by (rule findById_save_id)
  have again: "confirmPayment retrieve t st1 u i p
      = (save (d1\<lparr>paidAt := Some t\<rparr>) st1, Inr (d1\<lparr>paidAt := Some t\<rparr>))" for t
    using confirmPayment_prepare_again [OF p, of t] s by (simp add: confirmPayment_def)
  have f2: "findById (save (d1\<lparr>paidAt := Some t2\<rparr>) st1) i = Some (d1\<lparr>paidAt := Some t2\<rparr>)"
    using f by (rule findById_save_id) (simp add: o)
  have t: "paidAt d1 = Some t1"
    using p by (auto simp: confirmPayment_prepare_def split: option.splits if_splits sum.splits)
  then have same: "d1\<lparr>paidAt := Some t1\<rparr> = d1" by simp
  have "save d1 st1 = st1" using f o by (simp add: save_same)
  with again [of t1] same have "confirmPayment retrieve t1 st1 u i p = (st1, Inr d1)" by simp
  with again [of t2] t f f2 show ?thesis by simp
qed

theorem confirmPayment_twice_witness:
  "confirmPayment stripeRetrieve 1000 [order1] alice ''o1'' ''pi_1'' = ([paid1], Inr paid1)
   \<and> confirmPayment stripeRetrieve 2000 [paid1] alice ''o1'' ''pi_1''
        = ([paid1\<lparr>paidAt := Some 2000\<rparr>], Inr (paid1\<lparr>paidAt := Some 2000\<rparr>))
   \<and> confirmPayment stripeRetrieve 1000 [paid1] alice ''o1'' ''pi_1'' = ([paid1], Inr paid1)"
  using confirmPayment_twice
    [of stripeRetrieve 1000 "[order1]" alice "''o1''" "''pi_1''" "[paid1]" paid1 2000]
  by (simp add: confirmPayment_def confirmPayment_prepare_def findById_def save_def
      stripeRetrieve_def order1_def alice_def intent1_def paid1_def)

text \<open>
  C3. The claim: on an order paid with one intent, a confirmation with a second,
  different intent fails with DoublePaymentDetected and the stored reference stays.
  The code fails it: the call succeeds and the reference is replaced.
\<close>

theorem second_intent_overwrites_reference:
  "map paymentResult [paid1]
     = [Some \<lparr>pr_id = Some ''pi_1'', pr_status = Some ''succeeded'',
               pr_update_time = JNumber 500,
               pr_email_address = Some ''alice@example.com''\<rparr>]
   \<and> isPaid paid1
   \<and> \<not> isl (snd (confirmPayment stripeRetrieve 2000 [paid1] alice ''o1'' ''pi_2''))
   \<and> map paymentResult (fst (confirmPayment stripeRetrieve 2000 [paid1] alice ''o1'' ''pi_2''))
     = [Some \<lparr>pr_id = Some ''pi_2'', pr_status = Some ''succeeded'',
               pr_update_time = JNumber 600,
               pr_email_address = Some ''alice@example.com''\<rparr>]"
  by (simp add: confirmPayment_def confirmPayment_prepare_def
      findById_def save_def stripeRetrieve_def order1_def alice_def intent2_def paid1_def)

text \<open>
  C3, as amended. On an order that holds a payment reference, a confirmation by the
  owner with a different intent that the gateway reports as succeeded does not fail:
  it stores the order with \<^verbatim>\<open>paymentResult\<close> replaced by the second intent's
  id, status, creation time and the caller's email. \<^verbatim>\<open>updateOrderToPaid\<close>
  replaces the reference in the same way, by the values of the request body.
\<close>

theorem confirmPayment_overwrites_reference:
  assumes "findById st i = Some d" and "user d = ru_id u"
    and "retrieve p = Inr paymentIntent" and "pi_status paymentIntent = ''succeeded''"
    and "paymentResult d = Some r" and "pr_id r \<noteq> Some (pi_id paymentIntent)"
    and "pb_payer body = Some email" and "pb_id body \<noteq> pr_id r"
  shows "(let d' = d\<lparr>isPaid := True, paidAt := Some now,
                     paymentResult := Some \<lparr>pr_id = Some (pi_id paymentIntent),
                                            pr_status = Some (pi_status paymentIntent),
                                            pr_update_time = JNumber (pi_created paymentIntent),
                                            pr_email_address = Some (ru_email u)\<rparr>\<rparr>
          in confirmPayment retrieve now st u i p = (save d' st, Inr d')
             \<and> findById (save d' st) i = Some d'
             \<and> paymentResult d' \<noteq> paymentResult d)
       \<and> (let d' = d\<lparr>isPaid := True, paidAt := Some now,
                       paymentResult := Some \<lparr>pr_id = pb_id body,
                                              pr_status = pb_status body,
                                              pr_update_time = pb_update_time body,
                                              pr_email_address = email\<rparr>\<rparr>
            in updateOrderToPaid now st u i body = (save d' st, Inr d')
               \<and> findById (save d' st) i = Some d'
               \<and> paymentResult d' \<noteq> paymentResult d)"
proof -
  have o: "oid d = i" using assms(1) by (rule findById_oid)
  have saved: "findById (save d' st) i = Some d'" if "oid d' = i" for d'
    using assms(1) that by (rule findById_save_id)
  have c: "confirmPayment retrieve now st u i p
      = (save (d\<lparr>isPaid := True, paidAt := Some now,
                  paymentResult := Some \<lparr>pr_id = Some (pi_id paymentIntent),
                                         pr_status = Some (pi_status paymentIntent),
                                         pr_update_time = JNumber (pi_created paymentIntent),
                                         pr_email_address = Some (ru_email u)\<rparr>\<rparr>) st,
         Inr (d\<lparr>isPaid := True, paidAt := Some now,
                 paymentResult := Some \<lparr>pr_id = Some (pi_id paymentIntent),
                                        pr_status = Some (pi_status paymentIntent),
                                        pr_update_time = JNumber (pi_created paymentIntent),
                                        pr_email_address = Some (ru_email u)\<rparr>\<rparr>))"
    using assms(1-4) by (simp add: confirmPayment_def confirmPayment_prepare_def)
  have b: "updateOrderToPaid now st u i body
      = (save (d\<lparr>isPaid := True, paidAt := Some now,
                  paymentResult := Some \<lparr>pr_id = pb_id body,
                                         pr_status = pb_status body,
                                         pr_update_time = pb_update_time body,
                                         pr_email_address = email\<rparr>\<rparr>) st,
         Inr (d\<lparr>isPaid := True, paidAt := Some now,
                 paymentResult := Some \<lparr>pr_id = pb_id body,
                                        pr_status = pb_status body,
                                        pr_update_time = pb_update_time body,
                                        pr_email_address = email\<rparr>\<rparr>))"
    using assms(1,2,7) by (simp add: updateOrderToPaid_def Let_def)
  show ?thesis
    unfolding Let_def using assms(5,6,8) o by (auto simp: c b saved)
qed

theorem confirmPayment_overwrites_reference_witness:
  "findById [paid1] ''o1'' = Some paid1 \<and> user paid1 = ru_id alice
   \<and> stripeRetrieve ''pi_2'' = Inr intent2 \<and> pi_status intent2 = ''succeeded''
   \<and> map_option pr_id (paymentResult paid1) = Some (Some ''pi_1'')
   \<and> map (map_option pr_id \<circ> paymentResult)
        (fst (confirmPayment stripeRetrieve 2000 [paid1] alice ''o1'' ''pi_2''))
        = [Some (Some ''pi_2'')]
   \<and> map (map_option pr_id \<circ> paymentResult)
        (fst (updateOrderToPaid 2000 [paid1] alice ''o1'' payBody2))
        = [Some (Some ''PAYID-2'')]"
  using confirmPayment_overwrites_reference
    [of "[paid1]" "''o1''" paid1 alice stripeRetrieve "''pi_2''" intent2
       "\<lparr>pr_id = Some ''pi_1'', pr_status = Some ''succeeded'',
          pr_update_time = JNumber 500, pr_email_address = Some ''alice@example.com''\<rparr>"
       payBody2 "Some ''alice@example.com''" 2000]
  by (simp add: confirmPayment_def confirmPayment_prepare_def updateOrderToPaid_def
      findById_def save_def stripeRetrieve_def order1_def alice_def intent2_def paid1_def
      payBody2_def Let_def)

text \<open>
  C4. The claim: a payment-success event whose amount differs from the order's total
  fails with AmountMismatch and changes no order. The code fails it: an event with
  amount 1 for an order of total 23 is acknowledged and the order is updated.
\<close>

theorem tampered_amount_still_updates_order:
  "map totalPrice [paid1, claimed1] = [23, 23]
   \<and> pi_amount (ev_object tampered1) = 1
   \<and> webhook (verifying tampered1) ''whsec'' 2000 [paid1] ''{}'' (Some ''valid'')
        = ([paid1\<lparr>paidAt := Some 2000\<rparr>], Received)
   \<and> paid1\<lparr>paidAt := Some 2000\<rparr> \<noteq> paid1
   \<and> map isPaid [claimed1] = [False]
   \<and> snd (webhook (verifying tampered1) ''whsec'' 2000 [claimed1] ''{}'' (Some ''valid''))
        = Received
   \<and> map isPaid
        (fst (webhook (verifying tampered1) ''whsec'' 2000 [claimed1] ''{}'' (Some ''valid'')))
        = [True]"
  by (simp add: verifying_def webhook_def findOneAndUpdate_def paymentResultIdIs_def
      webhookUpdate_def tampered1_def intent1_def paid1_def claimed1_def order1_def)

text \<open>
  C4, as amended. The webhook never reads the event's amount or the order's total:
  the outcome of a verified delivery is the same whatever amount the event carries,
  and the response is \<^verbatim>\<open>{received: true}\<close>. For a success event the first
  stored order whose \<^verbatim>\<open>paymentResult.id\<close> is the event's intent id,
  whatever its total, gets \<^verbatim>\<open>isPaid\<close> true, \<^verbatim>\<open>paidAt\<close> the time of
  the delivery and \<^verbatim>\<open>paymentResult.status\<close> the event's status, and nothing
  else changes; when no stored order has that id, or the event is of another type,
  the collection stays as it is. The \<^verbatim>\<open>status\<close> and
  \<^verbatim>\<open>totalPrice\<close> of every stored order are left as they were.
\<close>

theorem webhook_ignores_amount:
  assumes "constructEvent body sig secret = Inr ev"
    and "constructEvent' body sig secret = Inr (ev\<lparr>ev_object := (ev_object ev)\<lparr>pi_amount := a\<rparr>\<rparr>)"
  shows "webhook constructEvent' secret now st body sig
           = webhook constructEvent secret now st body sig
       \<and> snd (webhook constructEvent secret now st body sig) = Received
       \<and> map status (fst (webhook constructEvent secret now st body sig)) = map status st
       \<and> map totalPrice (fst (webhook constructEvent secret now st body sig))
           = map totalPrice st
       \<and> (ev_type ev = ''payment_intent.succeeded'' \<longrightarrow>
            (\<forall>pre d r post.
               st = pre @ d # post
               \<and> (\<forall>x\<in>set pre. map_option pr_id (paymentResult x)
                                  \<noteq> Some (Some (pi_id (ev_object ev))))
               \<and> paymentResult d = Some r \<and> pr_id r = Some (pi_id (ev_object ev)) \<longrightarrow>
               webhook constructEvent' secret now st body sig
                 = (pre @ d\<lparr>isPaid := True, paidAt := Some now,
                             paymentResult :=
                               Some (r\<lparr>pr_status := Some (pi_status (ev_object ev))\<rparr>)\<rparr>
                      # post, Received)))
       \<and> ((\<forall>x\<in>set st. map_option pr_id (paymentResult x)
                           \<noteq> Some (Some (pi_id (ev_object ev)))) \<longrightarrow>
            webhook constructEvent' secret now st body sig = (st, Received))
       \<and> (ev_type ev \<noteq> ''payment_intent.succeeded'' \<longrightarrow>
            webhook constructEvent' secret now st body sig = (st, Received))"
proof -
  have same: "webhook constructEvent' secret now st body sig
          = webhook constructEvent secret now st body sig"
    using assms by (simp add: webhook_def webhookUpdate_amount)
  have "snd (webhook constructEvent secret now st body sig) = Received"
    using assms(1) by (simp add: webhook_def)
  moreover have "map status (fst (webhook constructEvent secret now st body sig)) = map status st"
    using assms(1)
    by (simp add: webhook_def findOneAndUpdate_def updateFirst_map_field webhookUpdate_def)
  moreover have "map totalPrice (fst (webhook constructEvent secret now st body sig))
      = map totalPrice st"
    using assms(1)
    by (simp add: webhook_def findOneAndUpdate_def updateFirst_map_field webhookUpdate_def)
  moreover have "\<forall>pre d r post.
               st = pre @ d # post
               \<and> (\<forall>x\<in>set pre. map_option pr_id (paymentResult x)
                                  \<noteq> Some (Some (pi_id (ev_object ev))))
               \<and> paymentResult d = Some r \<and> pr_id r = Some (pi_id (ev_object ev)) \<longrightarrow>
               webhook constructEvent' secret now st body sig
                 = (pre @ d\<lparr>isPaid := True, paidAt := Some now,
                             paymentResult :=
                               Some (r\<lparr>pr_status := Some (pi_status (ev_object ev))\<rparr>)\<rparr>
                      # post, Received)"
    if "ev_type ev = ''payment_intent.succeeded''"
    unfolding same
    using webhook_succeeded [of constructEvent body sig secret ev st _ _ _ _ now] assms(1) that
    by blast
  moreover have "webhook constructEvent' secret now st body sig = (st, Received)"
    if "\<forall>x\<in>set st. map_option pr_id (paymentResult x) \<noteq> Some (Some (pi_id (ev_object ev)))"
    unfolding same using assms(1) that by (rule webhook_no_match)
  moreover have "webhook constructEvent' secret now st body sig = (st, Received)"
    if "ev_type ev \<noteq> ''payment_intent.succeeded''"
    unfolding same using assms(1) that by (rule webhook_other_event)
  ultimately show ?thesis using same by blast
qed

theorem webhook_ignores_amount_witness:
  "verifying succeeded1 ''{}'' (Some ''valid'') ''whsec'' = Inr succeeded1
   \<and> verifying tampered1 ''{}'' (Some ''valid'') ''whsec''
        = Inr (succeeded1\<lparr>ev_object := (ev_object succeeded1)\<lparr>pi_amount := 1\<rparr>\<rparr>)
   \<and> webhook (verifying tampered1) ''whsec'' 2000 [order2, paid1] ''{}'' (Some ''valid'')
        = webhook (verifying succeeded1) ''whsec'' 2000 [order2, paid1] ''{}'' (Some ''valid'')
   \<and> webhook (verifying tampered1) ''whsec'' 2000 [order2, paid1] ''{}'' (Some ''valid'')
        = ([order2, paid1\<lparr>paidAt := Some 2000\<rparr>], Received)
   \<and> webhook (verifying tampered1) ''whsec'' 2000 [order2, claimed1] ''{}'' (Some ''valid'')
        = ([order2,
            claimed1\<lparr>isPaid := True, paidAt := Some 2000,
                     paymentResult := Some \<lparr>pr_id = Some ''pi_1'', pr_status = Some ''succeeded'',
                       pr_update_time = JUndefined, pr_email_address = None\<rparr>\<rparr>], Received)
   \<and> webhook (verifying tampered1) ''whsec'' 2000 [order2] ''{}'' (Some ''valid'')
        = ([order2], Received)"
  using webhook_ignores_amount
      [of "verifying succeeded1" "''{}''" "Some ''valid''" "''whsec''" succeeded1
         "verifying tampered1" 1 2000 "[order2, paid1]"]
    webhook_ignores_amount
      [of "verifying succeeded1" "''{}''" "Some ''valid''" "''whsec''" succeeded1
         "verifying tampered1" 1 2000 "[order2, claimed1]"]
    webhook_ignores_amount
      [of "verifying succeeded1" "''{}''" "Some ''valid''" "''whsec''" succeeded1
         "verifying tampered1" 1 2000 "[order2]"]
  by (simp add: verifying_def webhook_def findOneAndUpdate_def paymentResultIdIs_def
      webhookUpdate_def succeeded1_def tampered1_def intent1_def paid1_def claimed1_def
      order1_def order2_def)




text \<open>
  C6. The claim: a status change outside the transition table fails with
  InvalidTransition, so the status never moves backward. The code fails it: a
  delivered order is set back to processing.
\<close>

theorem delivered_order_moved_back_to_processing:
  "status delivered1 = ''delivered''
   \<and> \<not> spec_transition ''delivered'' ''processing''
   \<and> spec_transition ''processing'' ''delivered''
   \<and> updateOrderStatus statusEnum 4000 [delivered1] ''o1'' ''processing''
        = ([delivered1\<lparr>status := ''processing''\<rparr>],
           Inr (delivered1\<lparr>status := ''processing''\<rparr>))
   \<and> map status (fst (updateOrderStatus statusEnum 4000 [delivered1] ''o1'' ''processing''))
        = [''processing'']"
  by (simp add: updateOrderStatus_def findById_def save_def statusEnum_def delivered1_def
      paid1_def order1_def spec_transition_def Let_def)

text \<open>
  C6, as amended. \<^verbatim>\<open>updateOrderStatus\<close> sets the status of an existing
  order to any requested value that the schema's validator accepts, whatever the
  current status is. It fails only for an order that does not exist (404) or a value
  that the validator refuses, and then it writes nothing.
\<close>

theorem updateOrderStatus_sets_any_status:
  "(findById st i = Some d \<and> validStatus s \<longrightarrow>
      fst (updateOrderStatus validStatus now st i s)
        = save (if s = ''delivered''
                then d\<lparr>status := s, isDelivered := True, deliveredAt := Some now\<rparr>
                else d\<lparr>status := s\<rparr>) st
      \<and> (\<exists>d'. snd (updateOrderStatus validStatus now st i s) = Inr d'
            \<and> findById (fst (updateOrderStatus validStatus now st i s)) i = Some d'
            \<and> status d' = s))
   \<and> (\<forall>e. snd (updateOrderStatus validStatus now st i s) = Inl e \<longrightarrow>
          fst (updateOrderStatus validStatus now st i s) = st
          \<and> ((findById st i = None
                \<and> e = ErrorResponse (''Order not found with id of '' @ i) 404)
              \<or> (\<not> validStatus s \<and> e = Thrown ''ValidationError'')))"
proof (intro conjI impI allI)
  assume h: "findById st i = Some d \<and> validStatus s"
  then have i: "oid d = i" using findById_oid by blast
  have saved: "findById (save d' st) i = Some d'" if "oid d' = i" for d'
    using findById_save [of st d' d] h that by simp
  show "fst (updateOrderStatus validStatus now st i s)
        = save (if s = ''delivered''
                then d\<lparr>status := s, isDelivered := True, deliveredAt := Some now\<rparr>
                else d\<lparr>status := s\<rparr>) st"
    using h by (cases "s = ''delivered''") (auto simp: updateOrderStatus_def Let_def)
  show "\<exists>d'. snd (updateOrderStatus validStatus now st i s) = Inr d'
            \<and> findById (fst (updateOrderStatus validStatus now st i s)) i = Some d'
            \<and> status d' = s"
    using h i by (cases "s = ''delivered''") (auto simp: updateOrderStatus_def Let_def saved)
next
  fix e
  assume "snd (updateOrderStatus validStatus now st i s) = Inl e"
  then show "fst (updateOrderStatus validStatus now st i s) = st"
    by (auto simp: updateOrderStatus_def Let_def split: option.splits if_splits)
next
  fix e
  assume "snd (updateOrderStatus validStatus now st i s) = Inl e"
  then show "(findById st i = None
                \<and> e = ErrorResponse (''Order not found with id of '' @ i) 404)
              \<or> (\<not> validStatus s \<and> e = Thrown ''ValidationError'')"
    by (auto simp: updateOrderStatus_def Let_def split: option.splits if_splits)
qed

theorem updateOrderStatus_sets_any_status_witness:
  "findById [delivered1] ''o1'' = Some delivered1 \<and> statusEnum ''pending''
   \<and> status delivered1 = ''delivered''
   \<and> updateOrderStatus statusEnum 4000 [delivered1] ''o1'' ''pending''
        = ([delivered1\<lparr>status := ''pending''\<rparr>], Inr (delivered1\<lparr>status := ''pending''\<rparr>))
   \<and> updateOrderStatus statusEnum 4000 [delivered1] ''o1'' ''refunded''
        = ([delivered1], Inl (Thrown ''ValidationError''))
   \<and> updateOrderStatus statusEnum 4000 [delivered1] ''o7'' ''pending''
        = ([delivered1], Inl (ErrorResponse ''Order not found with id of o7'' 404))"
  using updateOrderStatus_sets_any_status
    [of "[delivered1]" "''o1''" delivered1 statusEnum "''pending''" 4000]
  by (simp add: updateOrderStatus_def findById_def save_def statusEnum_def delivered1_def
      paid1_def order1_def Let_def)

text \<open>
  C7. The claim: an unpaid order is never marked delivered. The code fails it: both
  \<^verbatim>\<open>updateOrderToDelivered\<close> and \<^verbatim>\<open>updateOrderStatus\<close> mark an
  unpaid order delivered.
\<close>

theorem unpaid_order_marked_delivered:
  "\<not> isPaid order1 \<and> paidAt order1 = None
   \<and> map isDelivered (fst (updateOrderToDelivered statusEnum 3000 [order1] ''o1'')) = [True]
   \<and> map isPaid (fst (updateOrderToDelivered statusEnum 3000 [order1] ''o1'')) = [False]
   \<and> map isDelivered (fst (updateOrderStatus statusEnum 3000 [order1] ''o1'' ''delivered''))
        = [True]
   \<and> map isPaid (fst (updateOrderStatus statusEnum 3000 [order1] ''o1'' ''delivered''))
        = [False]"
  by (simp add: updateOrderToDelivered_def updateOrderStatus_def findById_def save_def
      order1_def statusEnum_def Let_def)

text \<open>
  C7, as amended. \<^verbatim>\<open>updateOrderToDelivered\<close>, and
  \<^verbatim>\<open>updateOrderStatus\<close> with the status delivered, mark every existing order
  delivered (\<^verbatim>\<open>isDelivered\<close>, \<^verbatim>\<open>deliveredAt\<close>, status), paid or
  not, and leave \<^verbatim>\<open>isPaid\<close> and \<^verbatim>\<open>paidAt\<close> as they were.
\<close>

theorem mark_delivered_ignores_payment:
  assumes "findById st i = Some d" and "validStatus ''delivered''"
  shows "updateOrderToDelivered validStatus now st i
           = (save (d\<lparr>isDelivered := True, deliveredAt := Some now, status := ''delivered''\<rparr>) st,
              Inr (d\<lparr>isDelivered := True, deliveredAt := Some now, status := ''delivered''\<rparr>))
       \<and> findById (fst (updateOrderToDelivered validStatus now st i)) i
           = Some (d\<lparr>isDelivered := True, deliveredAt := Some now, status := ''delivered''\<rparr>)
       \<and> updateOrderStatus validStatus now st i ''delivered''
           = (save (d\<lparr>status := ''delivered'', isDelivered := True, deliveredAt := Some now\<rparr>) st,
              Inr (d\<lparr>status := ''delivered'', isDelivered := True, deliveredAt := Some now\<rparr>))
       \<and> findById (fst (updateOrderStatus validStatus now st i ''delivered'')) i
           = Some (d\<lparr>status := ''delivered'', isDelivered := True, deliveredAt := Some now\<rparr>)"
proof -
  have i: "oid d = i" using assms(1) by (rule findById_oid)
  have saved: "findById (save d' st) i = Some d'" if "oid d' = i" for d'
    using findById_save [of st d' d] assms(1) that by simp
  have a: "updateOrderToDelivered validStatus now st i
      = (save (d\<lparr>isDelivered := True, deliveredAt := Some now, status := ''delivered''\<rparr>) st,
         Inr (d\<lparr>isDelivered := True, deliveredAt := Some now, status := ''delivered''\<rparr>))"
    using assms by (simp add: updateOrderToDelivered_def Let_def)
  have b: "updateOrderStatus validStatus now st i ''delivered''
      = (save (d\<lparr>status := ''delivered'', isDelivered := True, deliveredAt := Some now\<rparr>) st,
         Inr (d\<lparr>status := ''delivered'', isDelivered := True, deliveredAt := Some now\<rparr>))"
    using assms by (simp add: updateOrderStatus_def Let_def)
  show ?thesis
    using i by (simp add: a b saved)
qed

theorem mark_delivered_ignores_payment_witness:
  "findById [order1] ''o1'' = Some order1 \<and> statusEnum ''delivered'' \<and> \<not> isPaid order1
   \<and> updateOrderToDelivered statusEnum 3000 [order1] ''o1''
        = ([order1\<lparr>isDelivered := True, deliveredAt := Some 3000, status := ''delivered''\<rparr>],
           Inr (order1\<lparr>isDelivered := True, deliveredAt := Some 3000, status := ''delivered''\<rparr>))
   \<and> isPaid (order1\<lparr>isDelivered := True, deliveredAt := Some 3000, status := ''delivered''\<rparr>)
        = False"
  using mark_delivered_ignores_payment [of "[order1]" "''o1''" order1 statusEnum 3000]
  by (simp add: updateOrderToDelivered_def updateOrderStatus_def findById_def order1_def
      statusEnum_def save_def Let_def)

text \<open>
  C8. A delivery whose signature does not verify is answered with status 400 and the
  plain text \<^verbatim>\<open>Webhook Error: \<close> followed by the verifier's message, and
  the collection is left as it was. The verification comes before any write: whenever
  the handler changes the collection, the verifier has returned an event, of type
  \<^verbatim>\<open>payment_intent.succeeded\<close>.
\<close>

theorem webhook_rejects_bad_signature:
  "(constructEvent body sig secret = Inl message \<longrightarrow>
      webhook constructEvent secret now st body sig
        = (st, Send 400 (''Webhook Error: '' @ message)))
   \<and> (fst (webhook constructEvent secret now st body sig) \<noteq> st \<longrightarrow>
        (\<exists>ev. constructEvent body sig secret = Inr ev
              \<and> ev_type ev = ''payment_intent.succeeded''))"
  by (auto simp: webhook_def split: sum.splits if_splits)

theorem webhook_rejects_bad_signature_witness:
  "verifying succeeded1 ''{}'' (Some ''forged'') ''whsec''
      = Inl ''No signatures found matching the expected signature for payload''
   \<and> webhook (verifying succeeded1) ''whsec'' 2000 [paid1] ''{}'' (Some ''forged'')
      = ([paid1],
         Send 400 ''Webhook Error: No signatures found matching the expected signature for payload'')
   \<and> fst (webhook (verifying succeeded1) ''whsec'' 2000 [paid1] ''{}'' (Some ''valid'')) \<noteq> [paid1]
   \<and> verifying succeeded1 ''{}'' (Some ''valid'') ''whsec'' = Inr succeeded1"
  using webhook_rejects_bad_signature
    [of "verifying succeeded1" "''{}''" "Some ''forged''" "''whsec''"
       "''No signatures found matching the expected signature for payload''" 2000 "[paid1]"]
    webhook_rejects_bad_signature
    [of "verifying succeeded1" "''{}''" "Some ''valid''" "''whsec''" "''''" 2000 "[paid1]"]
  by (simp add: verifying_def webhook_def findOneAndUpdate_def paymentResultIdIs_def
      webhookUpdate_def succeeded1_def intent1_def paid1_def order1_def)

text \<open>
  C9. \<^verbatim>\<open>updateOrder\<close>, called by the order's owner or by an admin with a
  body that the schema's validators accept, writes the fields of the body onto the
  stored order, whatever the order's state and whichever fields the body carries:
  each field of the stored order (\<^verbatim>\<open>user\<close>, \<^verbatim>\<open>items\<close>,
  \<^verbatim>\<open>totalPrice\<close>, \<^verbatim>\<open>isPaid\<close>, \<^verbatim>\<open>status\<close>,
  \<^verbatim>\<open>paymentResult\<close> and the others) becomes the body's value where the
  body has one and stays as it is otherwise. The call answers with that document,
  and no other document of the collection changes.
\<close>

theorem updateOrder_writes_body_fields:
  assumes "findById st i = Some d"
    and "user d = ru_id u \<or> ru_role u = ''admin''"
    and "runValidators body"
  shows "(let d' =
            \<lparr>oid = oid d,
             user = (case ob_user body of None \<Rightarrow> user d | Some v \<Rightarrow> v),
             items = (case ob_items body of None \<Rightarrow> items d | Some v \<Rightarrow> v),
             shippingAddress =
               (case ob_shippingAddress body of None \<Rightarrow> shippingAddress d | Some v \<Rightarrow> v),
             paymentMethod =
               (case ob_paymentMethod body of None \<Rightarrow> paymentMethod d | Some v \<Rightarrow> v),
             taxPrice = (case ob_taxPrice body of None \<Rightarrow> taxPrice d | Some v \<Rightarrow> v),
             shippingPrice =
               (case ob_shippingPrice body of None \<Rightarrow> shippingPrice d | Some v \<Rightarrow> v),
             totalPrice = (case ob_totalPrice body of None \<Rightarrow> totalPrice d | Some v \<Rightarrow> v),
             isPaid = (case ob_isPaid body of None \<Rightarrow> isPaid d | Some v \<Rightarrow> v),
             paidAt = (case ob_paidAt body of None \<Rightarrow> paidAt d | Some v \<Rightarrow> Some v),
             paymentResult =
               (case ob_paymentResult body of None \<Rightarrow> paymentResult d | Some v \<Rightarrow> Some v),
             isDelivered = (case ob_isDelivered body of None \<Rightarrow> isDelivered d | Some v \<Rightarrow> v),
             deliveredAt =
               (case ob_deliveredAt body of None \<Rightarrow> deliveredAt d | Some v \<Rightarrow> Some v),
             status = (case ob_status body of None \<Rightarrow> status d | Some v \<Rightarrow> v)\<rparr>
          in snd (updateOrder runValidators st u i body) = Inr (Some d')
             \<and> findById (fst (updateOrder runValidators st u i body)) i = Some d'
             \<and> (\<forall>pre post. st = pre @ d # post \<and> (\<forall>x\<in>set pre. oid x \<noteq> i) \<longrightarrow>
                   fst (updateOrder runValidators st u i body) = pre @ d' # post))
       \<and> (\<exists>pre post. st = pre @ d # post \<and> (\<forall>x\<in>set pre. oid x \<noteq> i))"
proof -
  have o: "oid d = i" using assms(1) by (rule findById_oid)
  then have "oid (setFields body d) = i" by (simp add: setFields_def)
  with assms(1)
  have f: "findById (findByIdAndUpdate i (setFields body) st) i = Some (setFields body d)"
    unfolding findByIdAndUpdate_def by (rule findById_updateFirst)
  have r: "updateOrder runValidators st u i body
          = (findByIdAndUpdate i (setFields body) st, Inr (Some (setFields body d)))"
    using assms f by (auto simp: updateOrder_def Let_def)
  have s: "findByIdAndUpdate i (setFields body) st = pre @ setFields body d # post"
    if "st = pre @ d # post" and "\<forall>x\<in>set pre. oid x \<noteq> i" for pre post
    unfolding findByIdAndUpdate_def using that o by (simp add: updateFirst_split)
  have e: "\<exists>pre post. st = pre @ d # post \<and> (\<forall>x\<in>set pre. oid x \<noteq> i)"
    using assms(1) by (rule findById_split)
  show ?thesis
    unfolding Let_def setFields_explicit [symmetric]
  proof (intro conjI allI impI)
    show "snd (updateOrder runValidators st u i body) = Inr (Some (setFields body d))"
      by (simp add: r)
    show "findById (fst (updateOrder runValidators st u i body)) i = Some (setFields body d)"
      by (simp add: r f)
    show "\<exists>pre post. st = pre @ d # post \<and> (\<forall>x\<in>set pre. oid x \<noteq> i)"
      by (rule e)
  next
    fix pre post
    assume "st = pre @ d # post \<and> (\<forall>x\<in>set pre. oid x \<noteq> i)"
    then have "findByIdAndUpdate i (setFields body) st = pre @ setFields body d # post"
      using s [of pre post] by blast
    then show "fst (updateOrder runValidators st u i body) = pre @ setFields body d # post"
      by (simp add: r)
  qed
qed

theorem updateOrder_writes_body_fields_witness:
  "findById [order2, order1] ''o1'' = Some order1 \<and> user order1 = ru_id alice
   \<and> ru_role alice = ''user''
   \<and> bodyValidators forgedBody \<and> bodyValidators onlyPaidBody \<and> bodyValidators takeoverBody
   \<and> updateOrder bodyValidators [order2, order1] alice ''o1'' forgedBody
        = ([order2,
            order1\<lparr>totalPrice := 1, isPaid := True,
                   paymentResult := Some \<lparr>pr_id = Some ''pi_9'', pr_status = Some ''succeeded'',
                     pr_update_time = JUndefined, pr_email_address = None\<rparr>,
                   status := ''delivered''\<rparr>],
           Inr (Some (order1\<lparr>totalPrice := 1, isPaid := True,
                   paymentResult := Some \<lparr>pr_id = Some ''pi_9'', pr_status = Some ''succeeded'',
                     pr_update_time = JUndefined, pr_email_address = None\<rparr>,
                   status := ''delivered''\<rparr>)))
   \<and> updateOrder bodyValidators [order2, order1] alice ''o1'' onlyPaidBody
        = ([order2, order1\<lparr>isPaid := True\<rparr>], Inr (Some (order1\<lparr>isPaid := True\<rparr>)))
   \<and> updateOrder bodyValidators [order2, order1] alice ''o1'' takeoverBody
        = ([order2,
            order1\<lparr>user := ''u2'',
                   items := [\<lparr>item_product = ''p1'', item_quantity = 50, item_price = 0\<rparr>]\<rparr>],
           Inr (Some (order1\<lparr>user := ''u2'',
                   items := [\<lparr>item_product = ''p1'', item_quantity = 50, item_price = 0\<rparr>]\<rparr>)))"
  using updateOrder_writes_body_fields
      [of "[order2, order1]" "''o1''" order1 alice bodyValidators forgedBody]
    updateOrder_writes_body_fields
      [of "[order2, order1]" "''o1''" order1 alice bodyValidators onlyPaidBody]
    updateOrder_writes_body_fields
      [of "[order2, order1]" "''o1''" order1 alice bodyValidators takeoverBody]
  by (simp add: updateOrder_def findById_def findByIdAndUpdate_def order1_def order2_def
      alice_def bodyValidators_def forgedBody_def onlyPaidBody_def takeoverBody_def
      statusEnum_def setFields_def orElse_def Let_def)

text \<open>
  C10. The claim ends: the webhook alone can never mark an order paid that was not
  first confirmed through the confirmation call. The code fails this: the owner's
  \<^verbatim>\<open>updateOrder\<close> with a body that holds only
  \<^verbatim>\<open>paymentResult.id\<close> stores the intent id on an unpaid order, and the
  webhook then marks it paid; \<^verbatim>\<open>confirmPayment\<close> never runs.
\<close>

theorem never_confirmed_order_marked_paid:
  "isPaid order1 = False \<and> paymentResult order1 = None
   \<and> updateOrder bodyValidators [order1] alice ''o1'' claimBody
        = ([claimed1], Inr (Some claimed1))
   \<and> isPaid claimed1 = False \<and> paidAt claimed1 = None
   \<and> webhook (verifying succeeded1) ''whsec'' 2000 [claimed1] ''{}'' (Some ''valid'')
        = ([claimed1\<lparr>isPaid := True, paidAt := Some 2000,
                      paymentResult := Some \<lparr>pr_id = Some ''pi_1'', pr_status = Some ''succeeded'',
                        pr_update_time = JUndefined, pr_email_address = None\<rparr>\<rparr>], Received)"
  by (simp add: updateOrder_def findById_def findByIdAndUpdate_def setFields_def orElse_def
      bodyValidators_def claimBody_def verifying_def webhook_def findOneAndUpdate_def
      paymentResultIdIs_def webhookUpdate_def succeeded1_def intent1_def claimed1_def
      order1_def alice_def Let_def)

text \<open>
  C10, as amended. For a delivery that verifies, the handler picks the document to
  update by the filter \<^verbatim>\<open>paymentResult.id = intent id\<close> alone. When no stored
  document has that \<^verbatim>\<open>paymentResult.id\<close>, the collection is left as it was;
  in every case each document that does not match stays as it is, and for a success
  event the first matching document, and only that one, receives the update. The
  stored id need not come from \<^verbatim>\<open>confirmPayment\<close>: after an
  \<^verbatim>\<open>updateOrder\<close> by the owner or an admin whose body carries a
  \<^verbatim>\<open>paymentResult\<close> with the intent id, on a collection in which no document
  had that id, a success event marks that order paid.
\<close>

theorem webhook_updates_only_matching_order:
  assumes "constructEvent body sig secret = Inr ev"
  shows "((\<forall>d\<in>set st. map_option pr_id (paymentResult d)
                          \<noteq> Some (Some (pi_id (ev_object ev)))) \<longrightarrow>
            webhook constructEvent secret now st body sig = (st, Received))
       \<and> length (fst (webhook constructEvent secret now st body sig)) = length st
       \<and> (\<forall>k<length st.
            map_option pr_id (paymentResult (st ! k)) \<noteq> Some (Some (pi_id (ev_object ev))) \<longrightarrow>
            fst (webhook constructEvent secret now st body sig) ! k = st ! k)
       \<and> (\<forall>pre d r post.
            st = pre @ d # post
              \<and> (\<forall>x\<in>set pre. map_option pr_id (paymentResult x)
                                 \<noteq> Some (Some (pi_id (ev_object ev))))
              \<and> paymentResult d = Some r \<and> pr_id r = Some (pi_id (ev_object ev))
              \<and> ev_type ev = ''payment_intent.succeeded'' \<longrightarrow>
            webhook constructEvent secret now st body sig
              = (pre @ d\<lparr>isPaid := True, paidAt := Some now,
                          paymentResult :=
                            Some (r\<lparr>pr_status := Some (pi_status (ev_object ev))\<rparr>)\<rparr>
                   # post, Received))
       \<and> (\<forall>runValidators u i d b r.
            findById st i = Some d \<and> (user d = ru_id u \<or> ru_role u = ''admin'')
              \<and> runValidators b
              \<and> ob_paymentResult b = Some r \<and> pr_id r = Some (pi_id (ev_object ev))
              \<and> (\<forall>x\<in>set st. map_option pr_id (paymentResult x)
                                \<noteq> Some (Some (pi_id (ev_object ev))))
              \<and> ev_type ev = ''payment_intent.succeeded'' \<longrightarrow>
            (\<exists>d'. findById
                     (fst (webhook constructEvent secret now
                             (fst (updateOrder runValidators st u i b)) body sig)) i = Some d'
                  \<and> isPaid d' \<and> paidAt d' = Some now
                  \<and> paymentResult d'
                      = Some (r\<lparr>pr_status := Some (pi_status (ev_object ev))\<rparr>)))"
proof (intro conjI allI impI)
  assume "\<forall>d\<in>set st. map_option pr_id (paymentResult d) \<noteq> Some (Some (pi_id (ev_object ev)))"
  with assms show "webhook constructEvent secret now st body sig = (st, Received)"
    by (rule webhook_no_match)
next
  show "length (fst (webhook constructEvent secret now st body sig)) = length st"
    using assms by (simp add: webhook_def findOneAndUpdate_def length_updateFirst)
next
  fix k
  assume "k < length st"
    and "map_option pr_id (paymentResult (st ! k)) \<noteq> Some (Some (pi_id (ev_object ev)))"
  then show "fst (webhook constructEvent secret now st body sig) ! k = st ! k"
    using assms
    by (simp add: webhook_def findOneAndUpdate_def updateFirst_nth_unmatched
        paymentResultIdIs_iff)
next
  fix pre d r post
  assume "st = pre @ d # post
      \<and> (\<forall>x\<in>set pre. map_option pr_id (paymentResult x) \<noteq> Some (Some (pi_id (ev_object ev))))
      \<and> paymentResult d = Some r \<and> pr_id r = Some (pi_id (ev_object ev))
      \<and> ev_type ev = ''payment_intent.succeeded''"
  then show "webhook constructEvent secret now st body sig
      = (pre @ d\<lparr>isPaid := True, paidAt := Some now,
                  paymentResult := Some (r\<lparr>pr_status := Some (pi_status (ev_object ev))\<rparr>)\<rparr>
           # post, Received)"
    using webhook_succeeded [of constructEvent body sig secret ev st pre d post r now] assms
    by blast
next
  fix runValidators :: "order_body \<Rightarrow> bool" and u :: req_user and i d
    and b :: order_body and r
  assume h: "findById st i = Some d \<and> (user d = ru_id u \<or> ru_role u = ''admin'')
      \<and> runValidators b
      \<and> ob_paymentResult b = Some r \<and> pr_id r = Some (pi_id (ev_object ev))
      \<and> (\<forall>x\<in>set st. map_option pr_id (paymentResult x) \<noteq> Some (Some (pi_id (ev_object ev))))
      \<and> ev_type ev = ''payment_intent.succeeded''"
  let ?q = "paymentResultIdIs (pi_id (ev_object ev))"
  let ?u = "webhookUpdate now (ev_object ev)"
  have o: "oid d = i" using h findById_oid by blast
  have f: "findById (findByIdAndUpdate i (setFields b) st) i = Some (setFields b d)"
    unfolding findByIdAndUpdate_def using h o
    by (intro findById_updateFirst) (simp_all add: setFields_def)
  have st': "fst (updateOrder runValidators st u i b) = findByIdAndUpdate i (setFields b) st"
    using h f by (auto simp: updateOrder_def Let_def)
  have pr: "paymentResult (setFields b d) = Some r" using h by (simp add: setFields_def)
  have "findById (updateFirst ?q ?u (updateFirst (\<lambda>x. oid x = i) (setFields b) st)) i
      = Some (?u (setFields b d))"
  proof (rule findById_after_two_updates)
    show "findById st i = Some d" using h by blast
    show "oid (setFields b d) = i" using o by (simp add: setFields_def)
    show "?q (setFields b d)" using h pr by (simp add: paymentResultIdIs_iff)
    show "\<forall>x\<in>set st. \<not> ?q x" using h by (simp add: paymentResultIdIs_iff)
    show "oid (?u (setFields b d)) = i" using o by (simp add: setFields_def webhookUpdate_def)
  qed
  then have w: "findById (fst (webhook constructEvent secret now
      (fst (updateOrder runValidators st u i b)) body sig)) i = Some (?u (setFields b d))"
    using assms h by (simp add: st' webhook_def findOneAndUpdate_def findByIdAndUpdate_def)
  have "isPaid (?u (setFields b d)) \<and> paidAt (?u (setFields b d)) = Some now
      \<and> paymentResult (?u (setFields b d))
          = Some (r\<lparr>pr_status := Some (pi_status (ev_object ev))\<rparr>)"
    using pr by (simp add: webhookUpdate_def)
  with w show "\<exists>d'. findById
                     (fst (webhook constructEvent secret now
                             (fst (updateOrder runValidators st u i b)) body sig)) i = Some d'
                  \<and> isPaid d' \<and> paidAt d' = Some now
                  \<and> paymentResult d'
                      = Some (r\<lparr>pr_status := Some (pi_status (ev_object ev))\<rparr>)"
    by blast
qed

theorem webhook_updates_only_matching_order_witness:
  "verifying succeeded2 ''{}'' (Some ''valid'') ''whsec'' = Inr succeeded2
   \<and> map (map_option pr_id \<circ> paymentResult) [order2, paid1] = [None, Some (Some ''pi_1'')]
   \<and> webhook (verifying succeeded2) ''whsec'' 2000 [order2, paid1] ''{}'' (Some ''valid'')
        = ([order2, paid1], Received)
   \<and> webhook (verifying succeeded1) ''whsec'' 2000 [order2, paid1] ''{}'' (Some ''valid'')
        = ([order2, paid1\<lparr>paidAt := Some 2000\<rparr>], Received)
   \<and> findById [order2, order1] ''o1'' = Some order1 \<and> user order1 = ru_id alice
   \<and> bodyValidators claimBody
   \<and> map (map_option pr_id \<circ> paymentResult) [order2, order1] = [None, None]
   \<and> webhook (verifying succeeded1) ''whsec'' 2000
        (fst (updateOrder bodyValidators [order2, order1] alice ''o1'' claimBody))
        ''{}'' (Some ''valid'')
        = ([order2,
            order1\<lparr>isPaid := True, paidAt := Some 2000,
                    paymentResult := Some \<lparr>pr_id = Some ''pi_1'', pr_status = Some ''succeeded'',
                      pr_update_time = JUndefined, pr_email_address = None\<rparr>\<rparr>], Received)"
  using webhook_updates_only_matching_order
    [of "verifying succeeded2" "''{}''" "Some ''valid''" "''whsec''" succeeded2
       "[order2, paid1]" 2000]
    webhook_updates_only_matching_order
    [of "verifying succeeded1" "''{}''" "Some ''valid''" "''whsec''" succeeded1
       "[order2, paid1]" 2000]
    webhook_updates_only_matching_order
    [of "verifying succeeded1" "''{}''" "Some ''valid''" "''whsec''" succeeded1
       "[order2, order1]" 2000]
  by (simp add: verifying_def webhook_def findOneAndUpdate_def paymentResultIdIs_def
      webhookUpdate_def succeeded1_def succeeded2_def intent1_def intent2_def paid1_def
      order1_def order2_def updateOrder_def findById_def findByIdAndUpdate_def setFields_def
      orElse_def bodyValidators_def claimBody_def alice_def Let_def)

end
